theory Spec2Isabelle
  imports Main "HOL-Library.AList"
begin

section \<open>PyALTO: routing-table parsers, topology model and residual-bandwidth cost\<close>

text \<open>
  A shallow embedding of three parts of PyALTO:
  \<^item> \<^verbatim>\<open>PyALTO-node/nethelpers.py\<close>: the kernel routing-table line parser, the
    \<^verbatim>\<open>ip addr\<close> line parser and the Quagga (router CLI) routing-table parser;
  \<^item> \<^verbatim>\<open>PyALTO-server/altoserver/corenetdata.py\<close>: the topology model;
  \<^item> \<^verbatim>\<open>PyALTO-server/altoserver/alto/costproviders/pathloadcostprovider.py\<close>: the
    residual-bandwidth cost provider.
  Python exceptions are values of \<open>py_error\<close>; a function that can raise returns
  \<open>py_error + 'a\<close>. Python's \<^verbatim>\<open>None\<close> is \<open>None\<close> of an option type. Strings are byte
  strings (\<open>char list\<close>), so the model covers ASCII input.
\<close>

subsection \<open>Python built-ins used by the source\<close>

datatype py_error =
    ValueError
  | IndexError
  | KeyError
  | BinasciiError
  | AddressValueError
  | NotImplementedError
  | UnboundLocalError
  | AssertionError

text \<open>\<^verbatim>\<open>s.split(sep)\<close> for a separator of one character: never empty, and two adjacent
  separators give an empty field.\<close>

fun split_on :: "char \<Rightarrow> string \<Rightarrow> string list" where
  "split_on c [] = [[]]"
| "split_on c (x # xs) =
     (if x = c then [] # split_on c xs
      else (case split_on c xs of
              [] \<Rightarrow> [[x]]
            | w # ws \<Rightarrow> (x # w) # ws))"

text \<open>\<^verbatim>\<open>s.strip(chars)\<close>: drops the characters of \<open>chars\<close> from both ends.\<close>

definition py_strip :: "string \<Rightarrow> string \<Rightarrow> string" where
  "py_strip cs s =
     rev (dropWhile (\<lambda>c. c \<in> set cs) (rev (dropWhile (\<lambda>c. c \<in> set cs) s)))"

text \<open>\<^verbatim>\<open>xs[i]\<close> on a list: a negative index counts from the end, an index out of range
  raises \<^verbatim>\<open>IndexError\<close>.\<close>

definition py_index :: "'a list \<Rightarrow> int \<Rightarrow> py_error + 'a" where
  "py_index xs i =
     (if 0 \<le> i \<and> i < int (length xs) then Inr (xs ! nat i)
      else if i < 0 \<and> - int (length xs) \<le> i then Inr (xs ! nat (int (length xs) + i))
      else Inl IndexError)"

text \<open>The ASCII characters that \<^verbatim>\<open>int()\<close> and \<^verbatim>\<open>str.strip()\<close> treat as white space.\<close>

definition py_whitespace :: string where
  "py_whitespace =
     [CHR 0x09, CHR 0x0A, CHR 0x0B, CHR 0x0C, CHR 0x0D,
      CHR 0x1C, CHR 0x1D, CHR 0x1E, CHR 0x1F, CHR 0x20]"

definition digit_val :: "char \<Rightarrow> nat option" where
  "digit_val c =
     map_of [(CHR ''0'', 0), (CHR ''1'', 1), (CHR ''2'', 2), (CHR ''3'', 3), (CHR ''4'', 4),
             (CHR ''5'', 5), (CHR ''6'', 6), (CHR ''7'', 7), (CHR ''8'', 8), (CHR ''9'', 9)] c"

text \<open>The digits of a decimal literal as \<^verbatim>\<open>int()\<close> reads them: at least one digit, and
  single underscores allowed between digits. The flag says that a digit must come next.\<close>

fun py_digits :: "bool \<Rightarrow> nat \<Rightarrow> string \<Rightarrow> nat option" where
  "py_digits need acc [] = (if need then None else Some acc)"
| "py_digits need acc (c # cs) =
     (case digit_val c of
        Some d \<Rightarrow> py_digits False (acc * 10 + d) cs
      | None \<Rightarrow> (if c = CHR ''_'' \<and> \<not> need then py_digits True acc cs else None))"

text \<open>\<^verbatim>\<open>int(s)\<close> for a string: surrounding white space is dropped, one sign is allowed,
  anything else raises \<^verbatim>\<open>ValueError\<close>.\<close>

definition py_int :: "string \<Rightarrow> py_error + int" where
  "py_int s =
     (let t = py_strip py_whitespace s;
          neg = (t \<noteq> [] \<and> hd t = CHR ''-'');
          body = (if t \<noteq> [] \<and> (hd t = CHR ''-'' \<or> hd t = CHR ''+'') then tl t else t)
      in case py_digits True 0 body of
           None \<Rightarrow> Inl ValueError
         | Some n \<Rightarrow> Inr (if neg then - int n else int n))"

text \<open>Sequencing of computations that can raise.\<close>

definition bind_err :: "py_error + 'a \<Rightarrow> ('a \<Rightarrow> py_error + 'b) \<Rightarrow> py_error + 'b" where
  "bind_err m f = (case m of Inl e \<Rightarrow> Inl e | Inr x \<Rightarrow> f x)"

subsection \<open>The router CLI (Quagga) routing-table parser\<close>

text \<open>One entry of the list \<^verbatim>\<open>_process_quagga_rt\<close> returns: the dictionary with the keys
  \<^verbatim>\<open>protocol, selected, fib, subnet, AD, RD, GW, Int\<close> (the key \<^verbatim>\<open>Int\<close> is the field
  \<open>Intf\<close>). The protocol code is one character, or \<^verbatim>\<open>None\<close> when a continuation line comes
  before any line with a code.\<close>

record route_record =
  protocol :: "char option"
  selected :: bool
  fib :: bool
  subnet :: "string option"
  AD :: "int option"
  RD :: "int option"
  GW :: "string option"
  Intf :: string

text \<open>
  The variables of \<^verbatim>\<open>_process_quagga_rt\<close> that live across iterations of its loop. The
  five \<open>last_\<close>/\<open>cached\<close> variables are the ones the source initialises before the loop.
  The locals \<^verbatim>\<open>subnet, ad, rd, gw, adapter\<close> are assigned inside the loop only; Python keeps
  them from one iteration to the next, and reading one that was never assigned raises
  \<^verbatim>\<open>UnboundLocalError\<close>. Such a local is \<open>None\<close> while unbound and \<open>Some v\<close> once bound
  (\<open>v\<close> may itself be Python's \<^verbatim>\<open>None\<close>).
\<close>

record quagga_state =
  last_proto :: "char option"
  last_subnet :: "string option"
  last_ad :: "int option"
  last_rd :: "int option"
  cached :: bool
  v_subnet :: "string option option"
  v_ad :: "int option option"
  v_rd :: "int option option"
  v_gw :: "string option option"
  v_adapter :: "string option"

definition quagga_init :: quagga_state where
  "quagga_init =
     \<lparr>last_proto = None, last_subnet = None, last_ad = None, last_rd = None, cached = False,
      v_subnet = None, v_ad = None, v_rd = None, v_gw = None, v_adapter = None\<rparr>"

text \<open>Index of the first token equal to \<open>t\<close> (the loops that \<^verbatim>\<open>break\<close> at the anchor), and
  the indices of all of them (the loop that does not).\<close>

fun first_index :: "string \<Rightarrow> string list \<Rightarrow> nat \<Rightarrow> nat option" where
  "first_index t [] n = None"
| "first_index t (x # xs) n = (if x = t then Some n else first_index t xs (Suc n))"

fun all_indices :: "string \<Rightarrow> string list \<Rightarrow> nat \<Rightarrow> nat list" where
  "all_indices t [] n = []"
| "all_indices t (x # xs) n =
     (if x = t then n # all_indices t xs (Suc n) else all_indices t xs (Suc n))"

text \<open>\<^verbatim>\<open>(ad, rd) = tok.strip('[]').split('/')\<close> followed by the two \<^verbatim>\<open>int()\<close> calls: the
  unpacking raises \<^verbatim>\<open>ValueError\<close> unless the split gives exactly two parts.\<close>

definition parse_ad_rd :: "string \<Rightarrow> py_error + (int \<times> int)" where
  "parse_ad_rd tok =
     (case split_on CHR ''/'' (py_strip ''[]'' tok) of
        [a, r] \<Rightarrow> bind_err (py_int a) (\<lambda>ad. bind_err (py_int r) (\<lambda>rd. Inr (ad, rd)))
      | _ \<Rightarrow> Inl ValueError)"

text \<open>The body of the branch \<^verbatim>\<open>if proto == 'C'\<close>: when no token is \<^verbatim>\<open>is\<close> the loop ends
  without assigning anything.\<close>

definition connected_branch :: "string list \<Rightarrow> quagga_state \<Rightarrow> py_error + quagga_state" where
  "connected_branch tokens st =
     (case first_index ''is'' tokens 0 of
        None \<Rightarrow> Inr st
      | Some num \<Rightarrow>
          bind_err (py_index tokens (int num - 1)) (\<lambda>sn.
          bind_err (py_index tokens (int num + 3)) (\<lambda>ad.
            Inr (st\<lparr>v_subnet := Some (Some sn), last_subnet := Some sn,
                    v_adapter := Some ad, v_ad := Some None, v_rd := Some None,
                    v_gw := Some None\<rparr>))))"

text \<open>The body of the branch \<^verbatim>\<open>if 'via' in tokens\<close>, at the first \<^verbatim>\<open>via\<close>.\<close>

definition via_branch :: "string list \<Rightarrow> quagga_state \<Rightarrow> py_error + quagga_state" where
  "via_branch tokens st =
     (case first_index ''via'' tokens 0 of
        None \<Rightarrow> Inr st
      | Some num \<Rightarrow>
          bind_err
            (if cached st
             then Inr (st\<lparr>v_subnet := Some (last_subnet st), v_ad := Some (last_ad st),
                          v_rd := Some (last_rd st)\<rparr>)
             else
               bind_err (py_index tokens (int num - 2)) (\<lambda>sn.
               bind_err (py_index tokens (int num - 1)) (\<lambda>tok.
               bind_err (parse_ad_rd tok) (\<lambda>(ad, rd).
                 Inr (st\<lparr>v_subnet := Some (Some sn), last_subnet := Some sn,
                         v_ad := Some (Some ad), v_rd := Some (Some rd),
                         last_ad := Some ad, last_rd := Some rd\<rparr>)))))
            (\<lambda>st'.
               bind_err (py_index tokens (int num + 1)) (\<lambda>g.
               bind_err (py_index tokens (int num + 2)) (\<lambda>a.
                 Inr (st'\<lparr>v_gw := Some (Some (py_strip '','' g)),
                          v_adapter := Some (py_strip '','' a)\<rparr>)))))"

text \<open>The body of the branch \<^verbatim>\<open>elif 'is' in tokens\<close>: it has no \<^verbatim>\<open>break\<close>, so it runs at
  every token \<^verbatim>\<open>is\<close>, in order.\<close>

definition is_step :: "string list \<Rightarrow> nat \<Rightarrow> quagga_state \<Rightarrow> py_error + quagga_state" where
  "is_step tokens num st =
     bind_err (py_index tokens (int num - 2)) (\<lambda>sn.
     bind_err (py_index tokens (int num - 1)) (\<lambda>tok.
     bind_err (parse_ad_rd tok) (\<lambda>(ad, rd).
     bind_err (py_index tokens (int num + 3)) (\<lambda>a.
       Inr (st\<lparr>v_subnet := Some (Some sn), last_subnet := Some sn,
               v_ad := Some (Some ad), v_rd := Some (Some rd),
               last_ad := Some ad, last_rd := Some rd,
               v_gw := Some None, v_adapter := Some (py_strip '','' a)\<rparr>)))))"

fun is_branch :: "string list \<Rightarrow> nat list \<Rightarrow> quagga_state \<Rightarrow> py_error + quagga_state" where
  "is_branch tokens [] st = Inr st"
| "is_branch tokens (num # nums) st =
     bind_err (is_step tokens num st) (is_branch tokens nums)"

text \<open>\<^verbatim>\<open>out.append({...})\<close>: reads the five locals, each of which must be bound.\<close>

definition make_record ::
  "char option \<Rightarrow> bool \<Rightarrow> bool \<Rightarrow> quagga_state \<Rightarrow> py_error + route_record" where
  "make_record proto sel fb st =
     (case (v_subnet st, v_ad st, v_rd st, v_gw st, v_adapter st) of
        (Some sn, Some ad, Some rd, Some gw, Some a) \<Rightarrow>
          Inr \<lparr>protocol = proto, selected = sel, fib = fb, subnet = sn,
               AD = ad, RD = rd, GW = gw, Intf = a\<rparr>
      | _ \<Rightarrow> Inl UnboundLocalError)"

text \<open>One iteration of the loop on a data line: the new state and the appended record.
  The source reads \<^verbatim>\<open>line[0]\<close>, \<^verbatim>\<open>line[1]\<close> and \<^verbatim>\<open>line[2]\<close> before it looks at the tokens;
  each raises \<^verbatim>\<open>IndexError\<close> on a line that is too short, and an exception ends the whole
  call, so the three reads are one test of the length.\<close>

definition process_line ::
  "quagga_state \<Rightarrow> string \<Rightarrow> py_error + (quagga_state \<times> route_record)" where
  "process_line st line =
     (if length line < 3 then Inl IndexError
      else
        let st1 = (if hd line = CHR '' '' then st\<lparr>cached := True\<rparr>
                   else st\<lparr>last_proto := Some (hd line), last_subnet := None,
                           last_ad := None, last_rd := None, cached := False\<rparr>);
            proto = last_proto st1;
            sel = (line ! 1 = CHR ''>'');
            fb = (line ! 2 = CHR ''*'');
            tokens = split_on CHR '' '' line
        in bind_err
             (if proto = Some CHR ''C'' then connected_branch tokens st1
              else if ''via'' \<in> set tokens then via_branch tokens st1
              else if ''is'' \<in> set tokens
                then is_branch tokens (all_indices ''is'' tokens 0) st1
              else Inl NotImplementedError)
             (\<lambda>st2. bind_err (make_record proto sel fb st2) (\<lambda>r. Inr (st2, r))))"

fun process_lines ::
  "quagga_state \<Rightarrow> string list \<Rightarrow> py_error + route_record list" where
  "process_lines st [] = Inr []"
| "process_lines st (l # ls) =
     bind_err (process_line st l) (\<lambda>(st', r).
     bind_err (process_lines st' ls) (\<lambda>rs. Inr (r # rs)))"

text \<open>\<^verbatim>\<open>_process_quagga_rt(in_lines)\<close>: lines 0 to 3 are headers and are skipped.\<close>

definition process_quagga_rt :: "string list \<Rightarrow> py_error + route_record list" where
  "process_quagga_rt in_lines = process_lines quagga_init (drop 4 in_lines)"

subsection \<open>Properties of the router CLI parser\<close>

text \<open>
  C8. Given four header lines and the data line
  \<^verbatim>\<open>C>* 10.0.0.0/24 is directly connected, eth0\<close>, the parser returns exactly one Route
  Record: protocol code \<^verbatim>\<open>C\<close> (directly connected), selected and FIB flags set, subnet
  \<^verbatim>\<open>10.0.0.0/24\<close>, egress interface \<^verbatim>\<open>eth0\<close>, no gateway and no AD/RD.
\<close>

theorem connected_line_parses:
  "process_quagga_rt [h1, h2, h3, h4, ''C>* 10.0.0.0/24 is directly connected, eth0''] =
     Inr [\<lparr>protocol = Some CHR ''C'', selected = True, fib = True,
           subnet = Some ''10.0.0.0/24'', AD = None, RD = None, GW = None,
           Intf = ''eth0''\<rparr>]"
  by (simp add: process_quagga_rt_def process_line_def quagga_init_def connected_branch_def
      make_record_def bind_err_def py_index_def Let_def)

text \<open>
  C4. The claim is that a data line of none of the three recognised shapes makes the
  parser fail, and that no record is made up for it. A routed line with neither anchor
  does raise (\<open>unrecognized_routed_line_fails\<close> below). A directly-connected line
  without the token \<^verbatim>\<open>is\<close> does not: the loop over its tokens ends without assigning, and
  the record is built from the locals the previous line left behind. Here the second data
  line names \<^verbatim>\<open>10.0.1.0/24\<close> and \<^verbatim>\<open>eth1\<close>, and the record returned for it repeats the first
  line's subnet and interface.
\<close>

theorem connected_line_without_anchor_repeats_previous:
  "process_quagga_rt [h1, h2, h3, h4,
      ''C>* 10.0.0.0/24 is directly connected, eth0'',
      ''C>* 10.0.1.0/24 directly connected eth1''] =
     Inr [\<lparr>protocol = Some CHR ''C'', selected = True, fib = True,
           subnet = Some ''10.0.0.0/24'', AD = None, RD = None, GW = None,
           Intf = ''eth0''\<rparr>,
          \<lparr>protocol = Some CHR ''C'', selected = True, fib = True,
           subnet = Some ''10.0.0.0/24'', AD = None, RD = None, GW = None,
           Intf = ''eth0''\<rparr>]"
  by (simp add: process_quagga_rt_def process_line_def quagga_init_def connected_branch_def
      make_record_def bind_err_def py_index_def Let_def)

text \<open>The sibling path: a line with a protocol code other than \<^verbatim>\<open>C\<close> and neither anchor
  raises \<^verbatim>\<open>NotImplementedError\<close>, whatever the state.\<close>

lemma unrecognized_routed_line_fails:
  assumes "3 \<le> length line" and "hd line \<noteq> CHR '' ''" and "hd line \<noteq> CHR ''C''"
    and "''via'' \<notin> set (split_on CHR '' '' line)"
    and "''is'' \<notin> set (split_on CHR '' '' line)"
  shows "process_line st line = Inl NotImplementedError"
  using assms by (simp add: process_line_def Let_def bind_err_def)

lemma unrecognized_routed_line_fails_witness:
  "process_line quagga_init ''X>* 10.0.0.0/24 nothing here'' = Inl NotImplementedError"
  using unrecognized_routed_line_fails [of "''X>* 10.0.0.0/24 nothing here''" quagga_init]
  by simp

subsubsection \<open>Continuation lines\<close>
















subsection \<open>The kernel routing-table line parser\<close>

text \<open>
  \<^verbatim>\<open>_parse_rt_line\<close> decodes the hexadecimal columns with
  \<^verbatim>\<open>int.from_bytes(binascii.unhexlify(word), sys.byteorder)\<close> and prints them with
  \<^verbatim>\<open>str(ipaddress.IPv4Address(addr))\<close>. The byte order of the platform is a parameter.
  \<^verbatim>\<open>unhexlify\<close> wants an even number of hexadecimal digits, \<^verbatim>\<open>IPv4Address\<close> a number
  below \<open>2 ^ 32\<close>.
\<close>

datatype byteorder = Little | Big

definition hex_val :: "char \<Rightarrow> nat option" where
  "hex_val c =
     map_of [(CHR ''0'', 0), (CHR ''1'', 1), (CHR ''2'', 2), (CHR ''3'', 3), (CHR ''4'', 4),
             (CHR ''5'', 5), (CHR ''6'', 6), (CHR ''7'', 7), (CHR ''8'', 8), (CHR ''9'', 9),
             (CHR ''a'', 10), (CHR ''b'', 11), (CHR ''c'', 12), (CHR ''d'', 13),
             (CHR ''e'', 14), (CHR ''f'', 15),
             (CHR ''A'', 10), (CHR ''B'', 11), (CHR ''C'', 12), (CHR ''D'', 13),
             (CHR ''E'', 14), (CHR ''F'', 15)] c"

fun unhexlify :: "string \<Rightarrow> py_error + nat list" where
  "unhexlify [] = Inr []"
| "unhexlify [c] = Inl BinasciiError"
| "unhexlify (a # b # cs) =
     (case (hex_val a, hex_val b) of
        (Some h, Some l) \<Rightarrow> bind_err (unhexlify cs) (\<lambda>bs. Inr ((16 * h + l) # bs))
      | _ \<Rightarrow> Inl BinasciiError)"

definition int_from_bytes :: "byteorder \<Rightarrow> nat list \<Rightarrow> nat" where
  "int_from_bytes bo bs =
     (case bo of
        Little \<Rightarrow> foldr (\<lambda>b acc. b + 256 * acc) bs 0
      | Big \<Rightarrow> foldl (\<lambda>acc b. 256 * acc + b) 0 bs)"

definition str_digit :: "nat \<Rightarrow> char" where
  "str_digit d = ''0123456789'' ! d"

definition str_octet :: "nat \<Rightarrow> string" where
  "str_octet n =
     (if n < 10 then [str_digit n]
      else if n < 100 then [str_digit (n div 10), str_digit (n mod 10)]
      else [str_digit (n div 100), str_digit (n div 10 mod 10), str_digit (n mod 10)])"

definition ipv4_address_str :: "nat \<Rightarrow> py_error + string" where
  "ipv4_address_str n =
     (if 2 ^ 32 \<le> n then Inl AddressValueError
      else Inr (str_octet (n div 2 ^ 24) @ ''.'' @ str_octet (n div 2 ^ 16 mod 256) @ ''.'' @
                str_octet (n div 2 ^ 8 mod 256) @ ''.'' @ str_octet (n mod 256)))"

definition decode_addr :: "byteorder \<Rightarrow> string \<Rightarrow> py_error + string" where
  "decode_addr bo word =
     bind_err (unhexlify word) (\<lambda>bs. ipv4_address_str (int_from_bytes bo bs))"

text \<open>The dictionary \<^verbatim>\<open>rt_line\<close>: a key is absent (\<open>None\<close>) until its column is read. The
  key \<^verbatim>\<open>mask\<close> is the field \<open>mask'\<close>; the flags are the list of the letters \<^verbatim>\<open>U\<close> and \<^verbatim>\<open>G\<close>.\<close>

record rt_line =
  ifname :: "string option"
  destination :: "string option"
  gateway :: "string option"
  flags :: "string list option"
  refcnt :: "int option"
  use :: "int option"
  metric :: "int option"
  mask' :: "string option"
  mtu :: "int option"
  window :: "int option"
  irtt :: "int option"

definition rt_empty :: rt_line where
  "rt_empty = \<lparr>ifname = None, destination = None, gateway = None, flags = None,
      refcnt = None, use = None, metric = None, mask' = None, mtu = None, window = None,
      irtt = None\<rparr>"

definition TAB :: char where
  "TAB = CHR 0x09"

text \<open>The message of \<^verbatim>\<open>logging.error\<close> in the last branch. The model returns the
  messages logged next to the dictionary, since logging is all that branch does.\<close>

definition unexpected_tokens :: string where
  "unexpected_tokens = ''Unexpected number of RT line tokens!''"

definition decode_flags :: "int \<Rightarrow> string list" where
  "decode_flags int_flags =
     (if and int_flags 1 \<noteq> 0 then [''U''] else []) @
     (if and int_flags 2 \<noteq> 0 then [''G''] else [])"

text \<open>The body of the loop over \<^verbatim>\<open>enumerate(str_line.split('\t'))\<close>.\<close>

definition rt_token ::
  "byteorder \<Rightarrow> nat \<Rightarrow> string \<Rightarrow> rt_line \<times> string list \<Rightarrow> py_error + (rt_line \<times> string list)" where
  "rt_token bo index word acc =
     (case acc of (r, lg) \<Rightarrow>
       if index = 0 then Inr (r\<lparr>ifname := Some word\<rparr>, lg)
       else if index = 1
         then bind_err (decode_addr bo word) (\<lambda>a. Inr (r\<lparr>destination := Some a\<rparr>, lg))
       else if index = 2
         then bind_err (decode_addr bo word) (\<lambda>a. Inr (r\<lparr>gateway := Some a\<rparr>, lg))
       else if index = 3
         then bind_err (py_int word) (\<lambda>n. Inr (r\<lparr>flags := Some (decode_flags n)\<rparr>, lg))
       else if index = 4
         then bind_err (py_int word) (\<lambda>n. Inr (r\<lparr>refcnt := Some n\<rparr>, lg))
       else if index = 5
         then bind_err (py_int word) (\<lambda>n. Inr (r\<lparr>use := Some n\<rparr>, lg))
       else if index = 6
         then bind_err (py_int word) (\<lambda>n. Inr (r\<lparr>metric := Some n\<rparr>, lg))
       else if index = 7
         then bind_err (decode_addr bo word) (\<lambda>a. Inr (r\<lparr>mask' := Some a\<rparr>, lg))
       else if index = 8
         then bind_err (py_int word) (\<lambda>n. Inr (r\<lparr>mtu := Some n\<rparr>, lg))
       else if index = 9
         then bind_err (py_int word) (\<lambda>n. Inr (r\<lparr>window := Some n\<rparr>, lg))
       else if index = 10
         then bind_err (py_int word) (\<lambda>n. Inr (r\<lparr>irtt := Some n\<rparr>, lg))
       else Inr (r, lg @ [unexpected_tokens]))"

fun rt_tokens ::
  "byteorder \<Rightarrow> nat \<Rightarrow> string list \<Rightarrow> rt_line \<times> string list \<Rightarrow>
     py_error + (rt_line \<times> string list)" where
  "rt_tokens bo index [] acc = Inr acc"
| "rt_tokens bo index (word # words) acc =
     bind_err (rt_token bo index word acc) (rt_tokens bo (Suc index) words)"

definition parse_rt_line :: "byteorder \<Rightarrow> string \<Rightarrow> py_error + (rt_line \<times> string list)" where
  "parse_rt_line bo str_line = rt_tokens bo 0 (split_on TAB str_line) (rt_empty, [])"

text \<open>A line of twelve columns: the eleven of the kernel's table and one more.\<close>

definition twelve_columns :: string where
  "twelve_columns =
     ''eth0'' @ [TAB] @ ''0000000A'' @ [TAB] @ ''0100000A'' @ [TAB] @ ''0003'' @ [TAB] @
     ''0'' @ [TAB] @ ''0'' @ [TAB] @ ''0'' @ [TAB] @ ''00FFFFFF'' @ [TAB] @
     ''0'' @ [TAB] @ ''0'' @ [TAB] @ ''0'' @ [TAB] @ ''extra''"

subsection \<open>Properties of the kernel routing-table line parser\<close>

lemmas rt_defs = rt_token_def decode_addr_def bind_err_def hex_val_def int_from_bytes_def
  ipv4_address_str_def str_octet_def str_digit_def py_int_def py_strip_def py_whitespace_def
  digit_val_def rt_empty_def decode_flags_def

lemma rt_tokens_append:
  "rt_tokens bo i (xs @ ys) acc =
     bind_err (rt_tokens bo i xs acc) (rt_tokens bo (i + length xs) ys)"
  by (induction xs arbitrary: i acc) (auto simp: bind_err_def split: sum.splits)

lemma rt_tokens_extra:
  "11 \<le> i \<Longrightarrow>
     rt_tokens bo i ws (r, lg) = Inr (r, lg @ replicate (length ws) unexpected_tokens)"
  by (induction ws arbitrary: i lg) (auto simp: rt_token_def bind_err_def replicate_append_same)

text \<open>
  C2, as the claim states it, fails: a line with more than eleven columns is not an error
  of the parser. On the line of twelve columns the call returns the dictionary of the
  first eleven, and the twelfth column leaves one logged message.
\<close>

theorem twelve_columns_parse:
  "parse_rt_line Little twelve_columns =
     Inr (\<lparr>ifname = Some ''eth0'', destination = Some ''10.0.0.0'',
           gateway = Some ''10.0.0.1'', flags = Some [''U'', ''G''], refcnt = Some 0,
           use = Some 0, metric = Some 0, mask' = Some ''255.255.255.0'', mtu = Some 0,
           window = Some 0, irtt = Some 0\<rparr>,
          [unexpected_tokens])"
  by (simp add: parse_rt_line_def twelve_columns_def TAB_def rt_defs)

text \<open>
  C2, amended. For every line with more than eleven tab-separated columns the parser
  returns what it returns for the first eleven columns alone (their dictionary, or the
  exception one of them raises), and logs one error message for each further column: the
  columns past the eleventh are dropped, and their number never makes the call fail.
\<close>

theorem extra_columns_only_logged:
  assumes "11 < length (split_on TAB str_line)"
  shows "parse_rt_line bo str_line =
           bind_err (rt_tokens bo 0 (take 11 (split_on TAB str_line)) (rt_empty, []))
             (\<lambda>(r, lg). Inr (r, lg @ replicate (length (split_on TAB str_line) - 11)
                                      unexpected_tokens))"
proof -
  define ws where "ws = split_on TAB str_line"
  have "ws = take 11 ws @ drop 11 ws" by simp
  then have "rt_tokens bo 0 ws (rt_empty, []) =
      bind_err (rt_tokens bo 0 (take 11 ws) (rt_empty, []))
        (rt_tokens bo (0 + length (take 11 ws)) (drop 11 ws))"
    using rt_tokens_append [of bo 0 "take 11 ws" "drop 11 ws"] by simp
  moreover have "length (take 11 ws) = 11" using assms by (simp add: ws_def)
  ultimately show ?thesis
    by (auto simp: parse_rt_line_def ws_def [symmetric] bind_err_def rt_tokens_extra
        split: sum.splits)
qed

theorem extra_columns_only_logged_witness:
  "11 < length (split_on TAB twelve_columns) \<and>
   parse_rt_line Big twelve_columns =
     Inr (\<lparr>ifname = Some ''eth0'', destination = Some ''0.0.0.10'',
           gateway = Some ''1.0.0.10'', flags = Some [''U'', ''G''], refcnt = Some 0,
           use = Some 0, metric = Some 0, mask' = Some ''0.255.255.255'', mtu = Some 0,
           window = Some 0, irtt = Some 0\<rparr>,
          [unexpected_tokens])"
proof -
  have h: "11 < length (split_on TAB twelve_columns)"
    by (simp add: twelve_columns_def TAB_def)
  from extra_columns_only_logged [OF h, of Big] h show ?thesis
    by (simp add: twelve_columns_def TAB_def rt_defs)
qed

subsection \<open>The interface-address line parser\<close>

text \<open>The dictionary \<^verbatim>\<open>data\<close> as \<^verbatim>\<open>_parse_ip_addr_single_line\<close> returns it: by then
  \<^verbatim>\<open>id\<close> (the field \<open>id'\<close>) is a string and both lifetimes are numbers.\<close>

record ip_addr_data =
  id' :: string
  name :: string
  family :: string
  address :: string
  brd :: string
  scope :: string
  valid_left :: int
  preferred_left :: int

text \<open>The lifetime read from a token: \<^verbatim>\<open>int(tok.strip('sec'))\<close>.\<close>

definition lifetime_of :: "string \<Rightarrow> py_error + int" where
  "lifetime_of tok = py_int (py_strip ''sec'' tok)"

text \<open>The line is cut at the backslash into exactly two blocks (the unpacking raises
  \<^verbatim>\<open>ValueError\<close> otherwise), and each block at the spaces.\<close>

definition parse_ip_addr_single_line :: "string \<Rightarrow> py_error + ip_addr_data" where
  "parse_ip_addr_single_line line =
     (case split_on CHR 0x5C line of
        [block1, block2] \<Rightarrow>
          (let tokens = split_on CHR '' '' block1 in
           bind_err (py_index tokens 0) (\<lambda>t0.
           bind_err (py_index tokens 1) (\<lambda>t1.
           bind_err (py_index tokens 2) (\<lambda>t2.
           bind_err (py_index tokens 3) (\<lambda>t3.
           bind_err (if t2 = ''inet''
                     then bind_err (py_index tokens 5) (\<lambda>t5. Inr (t5, 7))
                     else Inr ([], 5)) (\<lambda>(b, scope_val_id).
           bind_err (py_index tokens scope_val_id) (\<lambda>sc.
             (let tokens2 = split_on CHR '' '' block2 in
              bind_err (py_index tokens2 1) (\<lambda>u1.
              bind_err (if u1 = ''forever'' then Inr (- 1) else lifetime_of u1) (\<lambda>vl.
              bind_err (py_index tokens2 3) (\<lambda>u3.
              bind_err (if u3 = ''forever'' then Inr (- 1) else lifetime_of u1) (\<lambda>pl.
                Inr \<lparr>id' = py_strip '':'' t0, name = t1, family = t2, address = t3,
                     brd = b, scope = sc, valid_left = vl, preferred_left = pl\<rparr>))))))))))))
      | _ \<Rightarrow> Inl ValueError)"

subsection \<open>Properties of the interface-address line parser\<close>

text \<open>\<^verbatim>\<open>'forever'.strip('sec')\<close> is \<^verbatim>\<open>'forever'\<close>, which \<^verbatim>\<open>int()\<close> refuses.\<close>

lemma lifetime_of_forever: "lifetime_of ''forever'' = Inl ValueError"
  by (simp add: lifetime_of_def py_int_def py_strip_def py_whitespace_def digit_val_def)

text \<open>
  C9. For every line that parses, the numeric \<^verbatim>\<open>preferred_left\<close> is the number read from
  the token at index 1 of the second block, the valid-lifetime token, and so equals
  \<^verbatim>\<open>valid_left\<close>. The preferred-lifetime token at index 3 is only compared with \<^verbatim>\<open>forever\<close>:
  when it is \<^verbatim>\<open>forever\<close> the field is \<open>-1\<close>, and otherwise its own number is never read.
\<close>

theorem preferred_left_reuses_valid_token:
  assumes "parse_ip_addr_single_line line = Inr d"
    and "split_on CHR 0x5C line = [block1, block2]"
  shows "(split_on CHR '' '' block2 ! 3 \<noteq> ''forever'' \<longrightarrow>
            lifetime_of (split_on CHR '' '' block2 ! 1) = Inr (preferred_left d) \<and>
            preferred_left d = valid_left d) \<and>
         (split_on CHR '' '' block2 ! 3 = ''forever'' \<longrightarrow> preferred_left d = - 1)"
  using assms
  by (auto simp: parse_ip_addr_single_line_def Let_def bind_err_def py_index_def
      lifetime_of_forever split: if_splits sum.splits prod.splits)

text \<open>A line whose two lifetimes differ: 100 seconds valid, 50 seconds preferred. Both
  fields come out as 100.\<close>

definition addr_line :: string where
  "addr_line =
     ''2: eth0 inet 10.0.0.1/24 brd 10.0.0.255 scope global eth0'' @ [CHR 0x5C] @
     ''valid_lft 100sec preferred_lft 50sec''"

theorem preferred_left_reuses_valid_token_witness:
  "parse_ip_addr_single_line addr_line =
     Inr \<lparr>id' = ''2'', name = ''eth0'', family = ''inet'', address = ''10.0.0.1/24'',
          brd = ''10.0.0.255'', scope = ''global'', valid_left = 100,
          preferred_left = 100\<rparr> \<and>
   lifetime_of ''100sec'' = Inr 100"
proof -
  have p: "parse_ip_addr_single_line addr_line =
     Inr \<lparr>id' = ''2'', name = ''eth0'', family = ''inet'', address = ''10.0.0.1/24'',
          brd = ''10.0.0.255'', scope = ''global'', valid_left = 100,
          preferred_left = 100\<rparr>"
    by (simp add: addr_line_def parse_ip_addr_single_line_def Let_def bind_err_def
        py_index_def lifetime_of_def py_int_def py_strip_def py_whitespace_def digit_val_def)
  have b: "split_on CHR 0x5C addr_line =
      [''2: eth0 inet 10.0.0.1/24 brd 10.0.0.255 scope global eth0'',
       ''valid_lft 100sec preferred_lft 50sec'']"
    by (simp add: addr_line_def)
  have t: "split_on CHR '' '' ''valid_lft 100sec preferred_lft 50sec'' ! 3 \<noteq> ''forever''"
    by simp
  from preferred_left_reuses_valid_token [OF p b] t p show ?thesis by simp
qed

subsection \<open>The topology model\<close>

text \<open>
  The two dictionaries of \<^verbatim>\<open>CoreNetData\<close>, as the comment in the source gives them:
  \<^verbatim>\<open>_bridges = { bridge_name -> [global_a, global_b] }\<close> and
  \<^verbatim>\<open>_mappings = { hostname -> [[global, local], ...] }\<close>. A dictionary is the list of its
  items in iteration order; \<^verbatim>\<open>.get\<close> is \<open>map_of\<close>.
\<close>

type_synonym bridges_t = "(string \<times> (string \<times> string)) list"
type_synonym mappings_t = "(string \<times> (string \<times> string) list) list"

record CoreNetData =
  bridges :: bridges_t
  mappings :: mappings_t
  valid :: bool

text \<open>The class attributes: empty dictionaries and \<^verbatim>\<open>valid = False\<close>.\<close>

definition CoreNetData_init :: CoreNetData where
  "CoreNetData_init = \<lparr>bridges = [], mappings = [], valid = False\<rparr>"

text \<open>The parsed content of the topology file: \<^verbatim>\<open>data['links']\<close> and \<^verbatim>\<open>data['names']\<close>.\<close>

record topology_description =
  links :: bridges_t
  names :: mappings_t

text \<open>The two loops over a node's adapters: the first pair with the given global name,
  or with the given local name.\<close>

fun local_of :: "string \<Rightarrow> (string \<times> string) list \<Rightarrow> string option" where
  "local_of g [] = None"
| "local_of g ((global_name, local_name) # adapters) =
     (if global_name = g then Some local_name else local_of g adapters)"

fun global_of :: "string \<Rightarrow> (string \<times> string) list \<Rightarrow> string option" where
  "global_of l [] = None"
| "global_of l ((global_name, local_name) # adapters) =
     (if local_name = l then Some global_name else global_of l adapters)"

definition get_nodes_global_name :: "CoreNetData \<Rightarrow> string \<Rightarrow> string \<Rightarrow> string option" where
  "get_nodes_global_name cd node_name adapter_name =
     (case map_of (mappings cd) node_name of
        None \<Rightarrow> None
      | Some node_adapters \<Rightarrow> global_of adapter_name node_adapters)"

definition get_nodes_local_name :: "CoreNetData \<Rightarrow> string \<Rightarrow> string \<Rightarrow> string option" where
  "get_nodes_local_name cd node_name adapter_name =
     (case map_of (mappings cd) node_name of
        None \<Rightarrow> None
      | Some node_adapters \<Rightarrow> local_of adapter_name node_adapters)"

text \<open>\<^verbatim>\<open>_get_peer_adapter\<close>: the loop over \<^verbatim>\<open>self._bridges.values()\<close>.\<close>

fun peer_scan :: "string \<Rightarrow> (string \<times> string) list \<Rightarrow> string option" where
  "peer_scan g [] = None"
| "peer_scan g ((peer_a, peer_b) # rest) =
     (if peer_a = g then Some peer_b
      else if peer_b = g then Some peer_a
      else peer_scan g rest)"

definition get_peer_adapter :: "CoreNetData \<Rightarrow> string \<Rightarrow> string option" where
  "get_peer_adapter cd glob_adapter = peer_scan glob_adapter (map snd (bridges cd))"

text \<open>\<^verbatim>\<open>_get_device_from_globname\<close>: the first host, in the order of the dictionary, one
  of whose adapters has the global name.\<close>

fun device_scan :: "string \<Rightarrow> mappings_t \<Rightarrow> (string \<times> string) option" where
  "device_scan g [] = None"
| "device_scan g ((hostname, adapters) # rest) =
     (case local_of g adapters of
        Some loc_name \<Rightarrow> Some (hostname, loc_name)
      | None \<Rightarrow> device_scan g rest)"

definition get_device_from_globname :: "CoreNetData \<Rightarrow> string \<Rightarrow> (string \<times> string) option" where
  "get_device_from_globname cd in_globname = device_scan in_globname (mappings cd)"

text \<open>\<^verbatim>\<open>get_adapter_names\<close>: the loop over the adapters of the source device. A host name
  is a key of a dictionary read from JSON, so the test \<^verbatim>\<open>remote_hostname is None\<close> never
  holds.\<close>

fun adapter_scan ::
  "CoreNetData \<Rightarrow> string \<Rightarrow> (string \<times> string) list \<Rightarrow>
     ((string \<times> string) \<times> (string \<times> string option)) option" where
  "adapter_scan cd dst_device [] = None"
| "adapter_scan cd dst_device ((glob_name, loc_name) # rest) =
     (case get_peer_adapter cd glob_name of
        None \<Rightarrow> adapter_scan cd dst_device rest
      | Some remote_global \<Rightarrow>
          (case get_device_from_globname cd remote_global of
             None \<Rightarrow> adapter_scan cd dst_device rest
           | Some (remote_hostname, remote_local) \<Rightarrow>
               if remote_hostname \<noteq> dst_device then adapter_scan cd dst_device rest
               else Some ((glob_name, loc_name),
                          (remote_global,
                           get_nodes_local_name cd remote_hostname remote_global))))"

definition get_adapter_names ::
  "CoreNetData \<Rightarrow> string \<Rightarrow> string \<Rightarrow>
     ((string \<times> string) \<times> (string \<times> string option)) option" where
  "get_adapter_names cd src_device dst_device =
     (case map_of (mappings cd) src_device of
        None \<Rightarrow> None
      | Some src_node_adapters \<Rightarrow> adapter_scan cd dst_device src_node_adapters)"

text \<open>
  \<^verbatim>\<open>_validate\<close> returns \<^verbatim>\<open>None\<close> on every path; what differs is the error it logs before it
  returns. The model returns the logged errors. \<^verbatim>\<open>any(adapters)\<close> holds when one of the two
  names is a non-empty string.
\<close>

datatype validation_error =
    BridgeHasNoAdapters string
  | NoHostHavingAdapter string

fun validate_scan :: "CoreNetData \<Rightarrow> bridges_t \<Rightarrow> validation_error list" where
  "validate_scan cd [] = []"
| "validate_scan cd ((bridge, (global_a, global_b)) # rest) =
     (if \<not> (global_a \<noteq> [] \<or> global_b \<noteq> []) then [BridgeHasNoAdapters bridge]
      else if get_device_from_globname cd global_a = None then [NoHostHavingAdapter global_a]
      else if get_device_from_globname cd global_b = None then [NoHostHavingAdapter global_b]
      else validate_scan cd rest)"

definition validate :: "CoreNetData \<Rightarrow> validation_error list" where
  "validate cd = validate_scan cd (bridges cd)"

text \<open>\<^verbatim>\<open>load_data\<close>, from the parsed file on: it stores the two dictionaries, calls
  \<^verbatim>\<open>_validate\<close> and sets \<^verbatim>\<open>valid\<close>. The result is the object and what was logged.\<close>

definition load_data ::
  "CoreNetData \<Rightarrow> topology_description \<Rightarrow> CoreNetData \<times> validation_error list" where
  "load_data cd data =
     (let cd1 = cd\<lparr>bridges := links data, mappings := names data\<rparr>;
          logged = validate cd1
      in (cd1\<lparr>valid := True\<rparr>, logged))"

text \<open>A description with a dangling link: \<^verbatim>\<open>g2\<close> is an adapter of no device.\<close>

definition dangling_description :: topology_description where
  "dangling_description =
     \<lparr>links = [(''b1'', (''g1'', ''g2''))], names = [(''h1'', [(''g1'', ''eth0'')])]\<rparr>"

subsection \<open>Properties of the topology model\<close>

text \<open>
  C1. The claim is that loading a description with a dangling link fails, or leaves the
  topology marked invalid. \<^verbatim>\<open>_validate\<close> finds the dangling adapter and logs it, but
  \<^verbatim>\<open>load_data\<close> does not look at what \<^verbatim>\<open>_validate\<close> did and sets \<^verbatim>\<open>valid = True\<close> all the same.
\<close>

theorem dangling_link_loads_as_valid:
  "load_data CoreNetData_init dangling_description =
     (\<lparr>bridges = [(''b1'', (''g1'', ''g2''))], mappings = [(''h1'', [(''g1'', ''eth0'')])],
       valid = True\<rparr>,
      [NoHostHavingAdapter ''g2''])"
  by (simp add: load_data_def CoreNetData_init_def dangling_description_def validate_def
      get_device_from_globname_def)

text \<open>Whatever is loaded, the object ends up marked valid.\<close>

lemma load_data_always_valid: "valid (fst (load_data cd data))"
  by (simp add: load_data_def Let_def)

text \<open>The global adapter names at the ends of the links, link by link.\<close>

definition link_ends :: "CoreNetData \<Rightarrow> string list" where
  "link_ends cd = concat (map (\<lambda>(a, b). [a, b]) (map snd (bridges cd)))"

lemma peer_scan_absent:
  "g \<notin> set (concat (map (\<lambda>(a, b). [a, b]) ps)) \<Longrightarrow> peer_scan g ps = None"
  by (induction ps) auto

lemma peer_scan_link:
  "distinct (concat (map (\<lambda>(a, b). [a, b]) ps)) \<Longrightarrow> (a, b) \<in> set ps \<Longrightarrow>
     peer_scan a ps = Some b \<and> peer_scan b ps = Some a"
proof (induction ps)
  case Nil
  then show ?case by simp
next
  case (Cons p ps)
  obtain x y where p: "p = (x, y)" by (cases p)
  from Cons.prems(1) p have xy: "x \<noteq> y"
    and fresh: "x \<notin> set (concat (map (\<lambda>(a, b). [a, b]) ps))"
               "y \<notin> set (concat (map (\<lambda>(a, b). [a, b]) ps))"
    and d: "distinct (concat (map (\<lambda>(a, b). [a, b]) ps))"
    by auto
  show ?case
  proof (cases "(a, b) = (x, y)")
    case True
    with xy p show ?thesis by auto
  next
    case False
    with Cons.prems(2) p have mem: "(a, b) \<in> set ps" by auto
    then have "a \<in> set (concat (map (\<lambda>(a, b). [a, b]) ps))"
      "b \<in> set (concat (map (\<lambda>(a, b). [a, b]) ps))" by force+
    with fresh have "x \<noteq> a" "y \<noteq> a" "x \<noteq> b" "y \<noteq> b" by auto
    with Cons.IH [OF d mem] p show ?thesis by simp
  qed
qed

text \<open>
  C6. In a topology whose global adapter names are unique across all links (no name is an
  end of two links, nor both ends of one), for every link joining \<open>a\<close> and \<open>b\<close> the peer
  of \<open>a\<close> is \<open>b\<close> and the peer of \<open>b\<close> is \<open>a\<close>; and a name at the end of no link has no
  peer.
\<close>

theorem topology_symmetry:
  assumes "distinct (link_ends cd)"
  shows "(\<forall>(name, (a, b)) \<in> set (bridges cd).
            get_peer_adapter cd a = Some b \<and> get_peer_adapter cd b = Some a) \<and>
         (\<forall>g. g \<notin> set (link_ends cd) \<longrightarrow> get_peer_adapter cd g = None)"
proof (intro conjI ballI allI impI)
  fix l assume l: "l \<in> set (bridges cd)"
  obtain name a b where eq: "l = (name, (a, b))" by (cases l) auto
  with l have "(a, b) \<in> set (map snd (bridges cd))" by force
  with assms have "peer_scan a (map snd (bridges cd)) = Some b \<and>
      peer_scan b (map snd (bridges cd)) = Some a"
    unfolding link_ends_def by (rule peer_scan_link)
  then show "case l of (name, a, b) \<Rightarrow>
      get_peer_adapter cd a = Some b \<and> get_peer_adapter cd b = Some a"
    by (simp add: eq get_peer_adapter_def)
next
  fix g assume "g \<notin> set (link_ends cd)"
  then show "get_peer_adapter cd g = None"
    unfolding link_ends_def get_peer_adapter_def by (rule peer_scan_absent)
qed

definition two_links :: CoreNetData where
  "two_links =
     \<lparr>bridges = [(''b1'', (''g1'', ''g2'')), (''b2'', (''g3'', ''g4''))],
      mappings = [], valid = True\<rparr>"

theorem topology_symmetry_witness:
  "distinct (link_ends two_links) \<and>
   get_peer_adapter two_links ''g3'' = Some ''g4'' \<and>
   get_peer_adapter two_links ''g4'' = Some ''g3'' \<and>
   get_peer_adapter two_links ''g9'' = None"
proof -
  have d: "distinct (link_ends two_links)"
    by (simp add: link_ends_def two_links_def)
  have m: "(''b2'', (''g3'', ''g4'')) \<in> set (bridges two_links)"
    by (simp add: two_links_def)
  have n: "''g9'' \<notin> set (link_ends two_links)"
    by (simp add: link_ends_def two_links_def)
  from topology_symmetry [OF d] m n d show ?thesis by blast
qed

subsection \<open>The residual-bandwidth cost provider\<close>

text \<open>
  A node of a path: the provider reads its attributes \<^verbatim>\<open>name\<close> and \<^verbatim>\<open>type\<close> (the fields
  \<open>dev_name\<close> and \<open>dev_type\<close>) and compares nodes with \<^verbatim>\<open>==\<close>. Two devices are equal when
  both attributes are.
\<close>

record device =
  dev_name :: string
  dev_type :: string

text \<open>
  What the provider takes from modules that are not part of the sources at hand, as
  parameters: the network manager \<^verbatim>\<open>nm\<close> (\<^verbatim>\<open>get_out_edges\<close>, whose third component is
  \<^verbatim>\<open>params.get('capacity')\<close>; \<^verbatim>\<open>dev_to_dev_iterator\<close>, the path it yields as a list; and
  \<^verbatim>\<open>core_data\<close>, the topology model above), the two load methods of a device, and the
  address parser's \<^verbatim>\<open>to_object\<close> and \<^verbatim>\<open>from_object\<close>. Capacities and loads are Python
  numbers, here integers.
\<close>

record 'e network =
  get_out_edges :: "device \<Rightarrow> (device \<times> device \<times> int option) list"
  core_data :: CoreNetData
  get_adapter_tx_load :: "device \<Rightarrow> string \<Rightarrow> int option"
  get_adapter_rx_load :: "device \<Rightarrow> string option \<Rightarrow> int option"
  dev_to_dev_iterator :: "'e \<Rightarrow> 'e \<Rightarrow> device list"
  to_object :: "string \<Rightarrow> 'e"
  from_object :: "'e \<Rightarrow> string"

text \<open>\<^verbatim>\<open>get_link_capacity\<close>: the loop over the out-edges, with its assertion
  \<^verbatim>\<open>a_node == from_node\<close>. The result is the capacity of the first edge to \<^verbatim>\<open>to_node\<close>, or
  \<^verbatim>\<open>None\<close> when that edge has none or no edge leads there.\<close>

fun capacity_scan ::
  "device \<Rightarrow> device \<Rightarrow> (device \<times> device \<times> int option) list \<Rightarrow> py_error + int option" where
  "capacity_scan from_node to_node [] = Inr None"
| "capacity_scan from_node to_node ((a_node, b_node, capacity) # edges) =
     (if a_node \<noteq> from_node then Inl AssertionError
      else if b_node = to_node then Inr capacity
      else capacity_scan from_node to_node edges)"

definition get_link_capacity ::
  "'e network \<Rightarrow> device \<Rightarrow> device \<Rightarrow> py_error + int option" where
  "get_link_capacity nm from_node to_node =
     capacity_scan from_node to_node (get_out_edges nm from_node)"

text \<open>The test \<^verbatim>\<open>node_a.type == 'user' and node_b.type == 'user'\<close>.\<close>

definition both_users :: "device \<Rightarrow> device \<Rightarrow> bool" where
  "both_users node_a node_b = (dev_type node_a = ''user'' \<and> dev_type node_b = ''user'')"

text \<open>The load sample the source picks once the adapters are known: the transmit load of
  \<^verbatim>\<open>node_a\<close> when \<^verbatim>\<open>node_b\<close> is a user, else the receive load of \<^verbatim>\<open>node_b\<close>.\<close>

definition segment_load ::
  "'e network \<Rightarrow> device \<Rightarrow> device \<Rightarrow>
     (string \<times> string) \<times> (string \<times> string option) \<Rightarrow> int option" where
  "segment_load nm node_a node_b adapters =
     (case adapters of ((node_a_global, node_a_local), (node_b_global, node_b_local)) \<Rightarrow>
        if dev_type node_b = ''user'' then get_adapter_tx_load nm node_a node_a_local
        else get_adapter_rx_load nm node_b node_b_local)"

text \<open>
  The body of the \<^verbatim>\<open>while\<close> loop for one pair of nodes. \<open>Inr None\<close> is the early
  \<^verbatim>\<open>return None\<close>; \<open>Inr (Some bw)\<close> is the value appended to \<^verbatim>\<open>residual_bws\<close>.
\<close>

definition segment_residual ::
  "'e network \<Rightarrow> device \<Rightarrow> device \<Rightarrow> py_error + int option" where
  "segment_residual nm node_a node_b =
     bind_err (get_link_capacity nm node_a node_b) (\<lambda>cap_a_to_b.
       case cap_a_to_b of
         None \<Rightarrow> Inr None
       | Some cap \<Rightarrow>
           if both_users node_a node_b then Inr (Some cap)
           else
             (case get_adapter_names (core_data nm) (dev_name node_a) (dev_name node_b) of
                None \<Rightarrow> Inr None
              | Some adapters \<Rightarrow>
                  (case segment_load nm node_a node_b adapters of
                     None \<Rightarrow> Inr (Some cap)
                   | Some load \<Rightarrow> Inr (Some (max 0 (cap - load))))))"

text \<open>\<^verbatim>\<open>min(xs)\<close>: raises \<^verbatim>\<open>ValueError\<close> on an empty list.\<close>

fun py_min :: "int list \<Rightarrow> py_error + int" where
  "py_min [] = Inl ValueError"
| "py_min (x # xs) = Inr (fold min xs x)"

text \<open>
  The \<^verbatim>\<open>while pairs_left:\<close> loop. \<^verbatim>\<open>path\<close> is a dictionary with the keys \<open>0\<close> to
  \<open>len(path) - 1\<close>, so \<^verbatim>\<open>path[i]\<close> raises \<^verbatim>\<open>KeyError\<close> outside that range.
\<close>

fun residual_loop ::
  "'e network \<Rightarrow> device list \<Rightarrow> nat \<Rightarrow> nat \<Rightarrow> nat \<Rightarrow> int list \<Rightarrow> py_error + int option" where
  "residual_loop nm path idx_node_a idx_node_b 0 residual_bws =
     bind_err (py_min residual_bws) (\<lambda>m. Inr (Some m))"
| "residual_loop nm path idx_node_a idx_node_b (Suc pairs_left) residual_bws =
     (if \<not> idx_node_a < length path \<or> \<not> idx_node_b < length path then Inl KeyError
      else
        bind_err (segment_residual nm (path ! idx_node_a) (path ! idx_node_b)) (\<lambda>r.
          case r of
            None \<Rightarrow> Inr None
          | Some bw \<Rightarrow>
              residual_loop nm path (idx_node_a + 1) (idx_node_b + 1) pairs_left
                (residual_bws @ [bw])))"

text \<open>
  \<^verbatim>\<open>get_residual_bw_for_path\<close>. For an empty path \<^verbatim>\<open>pairs_left\<close> starts at \<open>-1\<close>, which is
  true, and the first \<^verbatim>\<open>path[0]\<close> raises \<^verbatim>\<open>KeyError\<close>; otherwise the loop runs
  \<open>len(path) - 1\<close> times.
\<close>

definition get_residual_bw_for_path :: "'e network \<Rightarrow> device list \<Rightarrow> py_error + int option" where
  "get_residual_bw_for_path nm path =
     (if path = [] then Inl KeyError
      else residual_loop nm path 0 1 (length path - 1) [])"

text \<open>\<^verbatim>\<open>get_cost\<close>: the inner loop over the destinations fills the dictionary
  \<^verbatim>\<open>this_src\<close>; a dictionary is the list of its items, updated in place.\<close>

fun dst_loop ::
  "'e network \<Rightarrow> 'e \<Rightarrow> 'e list \<Rightarrow> (string \<times> int) list \<Rightarrow> py_error + (string \<times> int) list" where
  "dst_loop nm src [] this_src = Inr this_src"
| "dst_loop nm src (dst # dsts) this_src =
     bind_err (get_residual_bw_for_path nm (dev_to_dev_iterator nm src dst)) (\<lambda>rbw.
       case rbw of
         None \<Rightarrow> dst_loop nm src dsts this_src
       | Some bw \<Rightarrow> dst_loop nm src dsts (AList.update (from_object nm dst) bw this_src))"

text \<open>\<^verbatim>\<open>any(this_src)\<close>: some key of the dictionary is a non-empty string.\<close>

definition any_key :: "(string \<times> 'v) list \<Rightarrow> bool" where
  "any_key d = list_ex (\<lambda>kv. fst kv \<noteq> []) d"

fun src_loop ::
  "'e network \<Rightarrow> 'e list \<Rightarrow> 'e list \<Rightarrow> (string \<times> (string \<times> int) list) list \<Rightarrow>
     py_error + (string \<times> (string \<times> int) list) list" where
  "src_loop nm [] dsts costmap = Inr costmap"
| "src_loop nm (src # srcs) dsts costmap =
     bind_err (dst_loop nm src dsts []) (\<lambda>this_src.
       src_loop nm srcs dsts
         (if any_key this_src then AList.update (from_object nm src) this_src costmap
          else costmap))"

definition get_cost ::
  "'e network \<Rightarrow> string list \<Rightarrow> string list \<Rightarrow>
     py_error + (string \<times> (string \<times> int) list) list" where
  "get_cost nm in_srcs in_dsts =
     src_loop nm (map (to_object nm) in_srcs) (map (to_object nm) in_dsts) []"








subsubsection \<open>Small networks\<close>

text \<open>Two hosts joined by one link, and a network of two nodes with one edge of the given
  capacity, the same load sample on every adapter, and the given topology.\<close>

definition linked_pair :: "string \<Rightarrow> string \<Rightarrow> CoreNetData" where
  "linked_pair host_a host_b =
     \<lparr>bridges = [(''l1'', (''ga'', ''gb''))],
      mappings = [(host_a, [(''ga'', ''eth0'')]), (host_b, [(''gb'', ''eth0'')])],
      valid = True\<rparr>"

definition two_node_network ::
  "device \<Rightarrow> device \<Rightarrow> int option \<Rightarrow> int option \<Rightarrow> CoreNetData \<Rightarrow> string network" where
  "two_node_network node_a node_b capacity load cd =
     \<lparr>get_out_edges = (\<lambda>n. if n = node_a then [(node_a, node_b, capacity)] else []),
      core_data = cd,
      get_adapter_tx_load = (\<lambda>n l. load),
      get_adapter_rx_load = (\<lambda>n l. load),
      dev_to_dev_iterator = (\<lambda>s d. [node_a, node_b]),
      to_object = (\<lambda>s. s),
      from_object = (\<lambda>e. e)\<rparr>"



definition user1 :: device where
  "user1 = \<lparr>dev_name = ''u1'', dev_type = ''user''\<rparr>"

definition user2 :: device where
  "user2 = \<lparr>dev_name = ''u2'', dev_type = ''user''\<rparr>"

text \<open>A network whose path from an endpoint to itself is the single device.\<close>

definition loopback_network :: "string network" where
  "loopback_network =
     (two_node_network user1 user2 (Some 10) None (linked_pair ''u1'' ''u2''))
       \<lparr>dev_to_dev_iterator := (\<lambda>s d. if s = d then [user1] else [user1, user2])\<rparr>"









subsection \<open>Properties of the residual-bandwidth cost provider\<close>





















lemma dst_loop_raises:
  "dst \<in> set dsts \<Longrightarrow>
   get_residual_bw_for_path nm (dev_to_dev_iterator nm src dst) = Inl e \<Longrightarrow>
   \<exists>e'. dst_loop nm src dsts this_src = Inl e'"
  by (induction dsts arbitrary: this_src) (auto simp: bind_err_def split: sum.splits option.splits)

lemma src_loop_raises:
  "src \<in> set srcs \<Longrightarrow> dst_loop nm src dsts [] = Inl e \<Longrightarrow>
   \<exists>e'. src_loop nm srcs dsts costmap = Inl e'"
  by (induction srcs arbitrary: costmap) (auto simp: bind_err_def split: sum.splits)

text \<open>
  C10. When the path between a source and a destination is a single device, the residual
  computation takes the minimum of an empty list and raises \<^verbatim>\<open>ValueError\<close>; \<^verbatim>\<open>get_cost\<close>
  for that pair alone raises it too, and \<^verbatim>\<open>get_cost\<close> for any lists of sources and
  destinations that contain the pair raises instead of returning a Cost Result.
\<close>

theorem single_device_path_raises:
  assumes "s \<in> set in_srcs" and "d \<in> set in_dsts"
    and "dev_to_dev_iterator nm (to_object nm s) (to_object nm d) = [node]"
  shows "get_residual_bw_for_path nm [node] = Inl ValueError \<and>
         get_cost nm [s] [d] = Inl ValueError \<and>
         (\<exists>e. get_cost nm in_srcs in_dsts = Inl e)"
proof -
  have r: "get_residual_bw_for_path nm [node] = Inl ValueError"
    by (simp add: get_residual_bw_for_path_def bind_err_def)
  have one: "get_cost nm [s] [d] = Inl ValueError"
    using assms(3) r by (simp add: get_cost_def bind_err_def)
  have "to_object nm d \<in> set (map (to_object nm) in_dsts)" using assms(2) by simp
  from dst_loop_raises [OF this, of nm "to_object nm s" ValueError "[]"] assms(3) r
  obtain e' where "dst_loop nm (to_object nm s) (map (to_object nm) in_dsts) [] = Inl e'"
    by auto
  moreover have "to_object nm s \<in> set (map (to_object nm) in_srcs)" using assms(1) by simp
  ultimately have "\<exists>e. get_cost nm in_srcs in_dsts = Inl e"
    unfolding get_cost_def by (rule src_loop_raises [rotated])
  with r one show ?thesis by simp
qed

theorem single_device_path_raises_witness:
  "get_residual_bw_for_path loopback_network [user1] = Inl ValueError \<and>
   get_cost loopback_network [''10.0.0.1''] [''10.0.0.1''] = Inl ValueError \<and>
   (\<exists>e. get_cost loopback_network [''10.0.0.2'', ''10.0.0.1'']
          [''10.0.0.2'', ''10.0.0.1''] = Inl e)"
proof -
  have p: "dev_to_dev_iterator loopback_network (to_object loopback_network ''10.0.0.1'')
      (to_object loopback_network ''10.0.0.1'') = [user1]"
    by (simp add: loopback_network_def two_node_network_def)
  show ?thesis
    by (rule single_device_path_raises [OF _ _ p]) simp_all
qed

end
